theory Spec2Isabelle
  imports Main "HOL-Library.Sublist" "HOL-Library.AList"
begin

section \<open>Python strings\<close>

text \<open>
  A Python \<open>str\<close> is a sequence of code points. The embedding covers the strings whose
  code points are below 256 (ASCII and Latin-1): such a string is a HOL \<open>string\<close>, one
  \<open>char\<close> per code point. On this range \<open>str.lower\<close>, the classes \<open>\w\<close> and \<open>\d\<close> of
  the \<open>re\<close> module and the white space of \<open>str.strip\<close> are the tables below.
\<close>

definition code_point :: "char \<Rightarrow> nat" where
  "code_point c = of_char c"

text \<open>\<open>str.lower\<close>: A-Z and the Latin-1 capitals (0xC0-0xDE except 0xD7) move up by 32.\<close>

definition lower_char :: "char \<Rightarrow> char" where
  "lower_char c =
     (let n = code_point c
      in if (65 \<le> n \<and> n \<le> 90) \<or> (192 \<le> n \<and> n \<le> 214) \<or> (216 \<le> n \<and> n \<le> 222)
         then char_of (n + 32) else c)"

definition lower :: "string \<Rightarrow> string" where
  "lower s = map lower_char s"

text \<open>\<open>text.startswith(sub)\<close> and the substring test \<open>sub in text\<close>.\<close>

fun starts_with :: "string \<Rightarrow> string \<Rightarrow> bool" where
  "starts_with [] text = True"
| "starts_with (p # ps) [] = False"
| "starts_with (p # ps) (c # cs) = (p = c \<and> starts_with ps cs)"

fun str_in :: "string \<Rightarrow> string \<Rightarrow> bool" where
  "str_in sub [] = (sub = [])"
| "str_in sub (c # cs) = (starts_with sub (c # cs) \<or> str_in sub cs)"

text \<open>The character classes of \<open>re\<close> on code points below 256.\<close>

definition is_digit :: "char \<Rightarrow> bool" where
  "is_digit c = (let n = code_point c in 48 \<le> n \<and> n \<le> 57)"

definition is_word_char :: "char \<Rightarrow> bool" where
  "is_word_char c =
     (let n = code_point c
      in (48 \<le> n \<and> n \<le> 57) \<or> (65 \<le> n \<and> n \<le> 90) \<or> n = 95 \<or> (97 \<le> n \<and> n \<le> 122)
         \<or> n = 170 \<or> n = 178 \<or> n = 179 \<or> n = 181 \<or> n = 185 \<or> n = 186
         \<or> (188 \<le> n \<and> n \<le> 190) \<or> (192 \<le> n \<and> n \<le> 214) \<or> (216 \<le> n \<and> n \<le> 246)
         \<or> (248 \<le> n \<and> n \<le> 255))"

text \<open>
  \<open>\b\<close> holds between two neighbouring positions when exactly one of them is a word
  character; the start and the end of the string count as non-word.
\<close>

definition opt_word :: "char option \<Rightarrow> bool" where
  "opt_word c = (case c of None \<Rightarrow> False | Some x \<Rightarrow> is_word_char x)"

definition word_boundary :: "char option \<Rightarrow> char option \<Rightarrow> bool" where
  "word_boundary prev nxt = (opt_word prev \<noteq> opt_word nxt)"

definition first_char :: "string \<Rightarrow> char option" where
  "first_char s = (case s of [] \<Rightarrow> None | c # _ \<Rightarrow> Some c)"

text \<open>\<open>int(s)\<close> on a string of decimal digits.\<close>

definition digit_value :: "char \<Rightarrow> int" where
  "digit_value c = int (code_point c) - 48"

definition int_of_digits :: "string \<Rightarrow> int" where
  "int_of_digits s = foldl (\<lambda>acc c. 10 * acc + digit_value c) 0 s"

section \<open>filters.py: the title matcher\<close>

definition TITLE_BLACKLIST :: "string set" where
  "TITLE_BLACKLIST =
     {''director'', ''vice president'', ''vp'', ''advocate'', ''advocacy'',
      ''merchandising'', ''operations'', ''professional services''}"

definition TITLE_REVIEW_FLAGS :: "string list" where
  "TITLE_REVIEW_FLAGS = [''head of'']"

text \<open>
  The review note \<open>f"title: '{phrase}' \<emdash> review"\<close>. The dash of the literal is U+2014,
  beyond the characters of a HOL string; it is written as its three UTF-8 bytes.
\<close>

definition em_dash :: string where
  "em_dash = [CHR 0xE2, CHR 0x80, CHR 0x94]"

definition title_review_note :: "string \<Rightarrow> string" where
  "title_review_note phrase =
     ''title: '' @ [CHR 0x27] @ phrase @ [CHR 0x27] @ '' '' @ em_dash @ '' review''"

text \<open>
  \<open>title_matches_whitelist(title, whitelist)\<close>. The whitelist is a set of phrases or
  \<open>None\<close>; \<open>if whitelist and ...\<close> is false for \<open>None\<close> and for the empty set.
\<close>

definition whitelist_rejects :: "string set option \<Rightarrow> string \<Rightarrow> bool" where
  "whitelist_rejects whitelist title_lower =
     (case whitelist of
        None \<Rightarrow> False
      | Some wl \<Rightarrow> wl \<noteq> {} \<and> \<not> (\<exists>phrase\<in>wl. str_in phrase title_lower))"

definition title_matches_whitelist :: "string \<Rightarrow> string set option \<Rightarrow> bool \<times> string" where
  "title_matches_whitelist title whitelist =
     (let title_lower = lower title
      in if \<exists>phrase\<in>TITLE_BLACKLIST. str_in phrase title_lower then (False, '''')
         else if whitelist_rejects whitelist title_lower then (False, '''')
         else (case find (\<lambda>phrase. str_in phrase title_lower) TITLE_REVIEW_FLAGS of
                 Some phrase \<Rightarrow> (True, title_review_note phrase)
               | None \<Rightarrow> (True, '''')))"

section \<open>profile.py: the degree and year parser\<close>

definition BACHELORS_KW :: "string list" where
  "BACHELORS_KW =
     [''bachelor'', ''b.s.'', ''b.s'', ''b.a.'', ''b.a'', ''b.sc'', ''b.eng'',
      ''b.e.'', ''btech'', ''b.tech'', ''(bs)'', ''(ba)'', ''bs '', ''ba '']"

definition skip_patterns :: "string list" where
  "skip_patterns =
     [''master'', ''m.s.'', ''m.s'', ''m.a.'', ''m.a'', ''mba'', ''m.b.a'',
      ''ph.d'', ''phd'', ''doctor'', ''associate'', ''a.s.'', ''a.a.'',
      ''high school'', ''diploma'', ''certificate'', ''bootcamp'',
      ''hack reactor'', ''app academy'', ''flatiron'', ''general assembly'',
      ''graddip'', ''postgrad'']"

text \<open>
  \<open>re.findall(r'\b(19|20)\d{2}\b', text)\<close>. The pattern has one capturing group, so
  \<open>findall\<close> returns, for each match, the text of that group: the two characters matched
  by \<open>(19|20)\<close>. \<open>year_at prev s\<close> is the match attempt at the head of \<open>s\<close>, with \<open>prev\<close>
  the character in front of it; the scan resumes behind a match, and one character
  further where there is none.
\<close>

definition year_at :: "char option \<Rightarrow> string \<Rightarrow> string option" where
  "year_at prev s =
     (case s of
        c1 # c2 # c3 # c4 # rest \<Rightarrow>
          if word_boundary prev (Some c1)
             \<and> ([c1, c2] = ''19'' \<or> [c1, c2] = ''20'')
             \<and> is_digit c3 \<and> is_digit c4
             \<and> word_boundary (Some c4) (first_char rest)
          then Some [c1, c2] else None
      | _ \<Rightarrow> None)"

fun findall_year :: "char option \<Rightarrow> string \<Rightarrow> string list" where
  "findall_year prev [] = []"
| "findall_year prev (c # cs) =
     (case year_at prev (c # cs) of
        Some g \<Rightarrow> g # findall_year (Some (cs ! 2)) (drop 3 cs)
      | None \<Rightarrow> findall_year (Some c) cs)"

definition parse_bachelors_year_from_text :: "string \<Rightarrow> int option" where
  "parse_bachelors_year_from_text text =
     (if text = [] then None
      else let text_lower = lower text
           in if \<exists>skip\<in>set skip_patterns. str_in skip text_lower then None
              else if \<not> (\<exists>kw\<in>set BACHELORS_KW. str_in kw text_lower) then None
              else let years = findall_year None text
                   in if years \<noteq> [] then Some (int_of_digits (last years)) else None)"

section \<open>White space, integers as text\<close>

text \<open>
  \<open>str.strip()\<close> removes the characters for which \<open>str.isspace\<close> holds from both ends;
  JavaScript's \<open>trim()\<close> has a smaller set; \<open>s.strip(chars)\<close> removes the given ones.
\<close>

definition py_space :: "char \<Rightarrow> bool" where
  "py_space c =
     (let n = code_point c in (9 \<le> n \<and> n \<le> 13) \<or> (28 \<le> n \<and> n \<le> 32) \<or> n = 133 \<or> n = 160)"

definition js_space :: "char \<Rightarrow> bool" where
  "js_space c = (let n = code_point c in (9 \<le> n \<and> n \<le> 13) \<or> n = 32 \<or> n = 160)"

definition strip_with :: "(char \<Rightarrow> bool) \<Rightarrow> string \<Rightarrow> string" where
  "strip_with drops s = rev (dropWhile drops (rev (dropWhile drops s)))"

definition py_strip :: "string \<Rightarrow> string" where
  "py_strip s = strip_with py_space s"

definition js_trim :: "string \<Rightarrow> string" where
  "js_trim s = strip_with js_space s"

definition strip_chars :: "string \<Rightarrow> string \<Rightarrow> string" where
  "strip_chars chars s = strip_with (\<lambda>c. c \<in> set chars) s"

text \<open>\<open>str(n)\<close> for an integer: the decimal digits, with a minus sign below zero.\<close>

definition digit_char :: "nat \<Rightarrow> char" where
  "digit_char d = char_of (48 + d)"

fun digits_of_nat :: "nat \<Rightarrow> string" where
  "digits_of_nat n =
     (if n < 10 then [digit_char n] else digits_of_nat (n div 10) @ [digit_char (n mod 10)])"

declare digits_of_nat.simps [simp del]

definition str_of_int :: "int \<Rightarrow> string" where
  "str_of_int i = (if i < 0 then ''-'' @ digits_of_nat (nat (- i)) else digits_of_nat (nat i))"

section \<open>profile_navigation.py: education classification\<close>

text \<open>
  An alternative of \<open>BACHELOR_RE\<close> or \<open>MASTER_RE\<close> is a literal with an optional \<open>\b\<close> in
  front and behind: \<open>(lead, literal, trail)\<close>. Both patterns are compiled with
  \<open>re.IGNORECASE\<close>; the literals are lower case, so an alternative matches at the head of
  \<open>s\<close> when the literal starts the lowered text. \<open>re.search\<close> tries every position.
\<close>

type_synonym alternative = "bool \<times> string \<times> bool"

definition BACHELOR_RE :: "alternative list" where
  "BACHELOR_RE =
     [(True, ''bachelor'', False), (True, ''bs'', True), (True, ''ba'', True),
      (False, ''b.s'', True), (False, ''b.a'', True), (False, ''b.sc'', True),
      (False, ''b.eng'', True), (False, ''b.e'', True), (False, ''btech'', True),
      (False, ''b.tech'', True)]"

definition MASTER_RE :: "alternative list" where
  "MASTER_RE =
     [(True, ''master'', False), (True, ''mba'', True), (False, ''m.b.a'', True),
      (False, ''m.s'', True), (False, ''m.a'', True), (False, ''m.eng'', True),
      (False, ''m.sc'', True), (False, ''mtech'', True), (False, ''m.tech'', True)]"

definition last_char :: "string \<Rightarrow> char option" where
  "last_char s = (if s = [] then None else Some (last s))"

definition alt_at :: "alternative \<Rightarrow> char option \<Rightarrow> string \<Rightarrow> bool" where
  "alt_at a prev s =
     (case a of (lead, lit, trail) \<Rightarrow>
        (if lead \<and> \<not> word_boundary prev (first_char s) then False
         else if \<not> starts_with lit (lower s) then False
         else if trail then
           word_boundary (case last_char (take (length lit) s) of None \<Rightarrow> prev | Some c \<Rightarrow> Some c)
             (first_char (drop (length lit) s))
         else True))"

fun re_search :: "alternative list \<Rightarrow> char option \<Rightarrow> string \<Rightarrow> bool" where
  "re_search alts prev [] = list_ex (\<lambda>a. alt_at a prev []) alts"
| "re_search alts prev (c # cs) =
     (list_ex (\<lambda>a. alt_at a prev (c # cs)) alts \<or> re_search alts (Some c) cs)"

record edu_entry =
  degree :: string
  year :: "int option"

definition is_bachelor :: "edu_entry \<Rightarrow> bool" where
  "is_bachelor e = re_search BACHELOR_RE None (degree e)"

definition is_master :: "edu_entry \<Rightarrow> bool" where
  "is_master e = re_search MASTER_RE None (degree e)"

text \<open>\<open>_classify_education(entries, has_education)\<close>: (should_scrape, review_note, grad_year).\<close>

definition classify_education :: "edu_entry list \<Rightarrow> bool \<Rightarrow> bool \<times> string \<times> int option" where
  "classify_education entries has_education =
     (if \<not> has_education then (True, ''no education'', None)
      else let bachelors = filter is_bachelor entries;
               has_master = list_ex is_master entries
           in if length bachelors = 0 then
                (if has_master then (True, ''No bachelor'' @ [CHR 0x27] @ ''s - review'', None)
                 else (False, '''', None))
              else if length bachelors > 1 then (True, ''multi bachelor - review'', None)
              else (case year (hd bachelors) of
                      None \<Rightarrow> (True, ''no edu year - review'', None)
                    | Some grad_year \<Rightarrow>
                        if 2010 \<le> grad_year \<and> grad_year \<le> 2024 then (True, '''', Some grad_year)
                        else (False, '''', Some grad_year)))"

text \<open>
  The script that \<open>_extract_education_from_panel\<close> evaluates in the page reads the rows
  \<open>li[data-live-test-education-item]\<close> and the "show more" button. A row is seen through
  the text of its degree element (if there is one) and the texts of the \<open>time\<close> elements
  of its dates cell (if there is one).
\<close>

record edu_item =
  degree_el :: "string option"
  dates_times :: "string list option"

record edu_dom =
  items :: "edu_item list"
  show_more_btn :: bool

record edu_data =
  entries :: "edu_entry list"
  hasEducation :: bool
  hasShowMore :: bool

text \<open>\<open>txt.match(/\d{4}/)\<close>: the first four consecutive ASCII digits.\<close>

fun match_4_digits :: "string \<Rightarrow> string option" where
  "match_4_digits (c1 # c2 # c3 # c4 # rest) =
     (if is_digit c1 \<and> is_digit c2 \<and> is_digit c3 \<and> is_digit c4 then Some [c1, c2, c3, c4]
      else match_4_digits (c2 # c3 # c4 # rest))"
| "match_4_digits _ = None"

definition item_year :: "edu_item \<Rightarrow> int option" where
  "item_year item =
     (case dates_times item of
        None \<Rightarrow> None
      | Some time_texts \<Rightarrow>
          if length time_texts > 0 then
            (case match_4_digits (js_trim (last time_texts)) of
               None \<Rightarrow> None
             | Some m \<Rightarrow> Some (int_of_digits m))
          else None)"

definition item_entry :: "edu_item \<Rightarrow> edu_entry" where
  "item_entry item =
     \<lparr>degree = (case degree_el item of None \<Rightarrow> '''' | Some t \<Rightarrow> js_trim t),
      year = item_year item\<rparr>"

definition edu_script :: "edu_dom \<Rightarrow> edu_data" where
  "edu_script d =
     (if length (items d) = 0 then \<lparr>entries = [], hasEducation = False, hasShowMore = False\<rparr>
      else if show_more_btn d then \<lparr>entries = [], hasEducation = True, hasShowMore = True\<rparr>
      else \<lparr>entries = map item_entry (items d), hasEducation = True, hasShowMore = False\<rparr>)"

text \<open>
  \<open>_extract_education_from_panel(page)\<close>. \<open>None\<close> stands for a page whose evaluation
  raises: the \<open>except\<close> branch lets the candidate through with a review flag.
\<close>

definition extract_education_from_panel :: "edu_dom option \<Rightarrow> bool \<times> string \<times> int option" where
  "extract_education_from_panel page_edu =
     (case page_edu of
        None \<Rightarrow> (True, ''no education'', None)
      | Some d \<Rightarrow>
          let data = edu_script d
          in if hasShowMore data then (False, '''', None)
             else classify_education (entries data) (hasEducation data))"

section \<open>utils.py: the location normalizer\<close>

definition NYC_ALIASES :: "string list" where
  "NYC_ALIASES =
     [''new york'', ''brooklyn'', ''queens'', ''bronx'', ''manhattan'',
      ''staten island'', ''jersey city'', ''hoboken'', ''newark'',
      ''yonkers'', ''white plains'', ''stamford'', ''new rochelle'']"

definition SF_ALIASES :: "string list" where
  "SF_ALIASES =
     [''san francisco'', ''san jose'', ''oakland'', ''berkeley'',
      ''palo alto'', ''mountain view'', ''sunnyvale'', ''santa clara'',
      ''redwood city'', ''menlo park'', ''cupertino'', ''fremont'',
      ''san mateo'', ''daly city'', ''south san francisco'',
      ''hayward'', ''milpitas'', ''campbell'', ''san ramon'']"

text \<open>\<open>raw.split(",")[0]\<close> is the text in front of the first comma.\<close>

definition normalize_location :: "string \<Rightarrow> string" where
  "normalize_location raw =
     (let lowered = py_strip (lower raw)
      in if list_ex (\<lambda>alias. str_in alias lowered) NYC_ALIASES then ''NYC''
         else if list_ex (\<lambda>alias. str_in alias lowered) SF_ALIASES then ''SF''
         else py_strip (takeWhile (\<lambda>c. c \<noteq> CHR '','') raw))"

section \<open>profile_navigation.py: extraction from the open panel\<close>

text \<open>
  The record that \<open>_extract_from_open_panel\<close> returns (a dict with these keys, in this
  order), and what the page shows while the panel of one candidate is open: the result of
  the panel script (\<open>None\<close> when its evaluation raises), the education rows, the URL that
  \<open>_get_public_url_from_panel\<close> resolves (it swallows its own exceptions), the page title
  and body text that the crash check reads (\<open>None\<close> when reading raises), and whether
  \<open>_click_next_candidate\<close> could click.
\<close>

record profile =
  full_name :: string
  current_company :: string
  current_title :: string
  linkedin_public_url :: string
  location :: string
  headline :: string
  bachelors_grad_year :: "int option"
  years_experience :: "int option"
  recruiter_url :: string
  needs_review :: bool
  review :: string

record panel_data =
  panel_name :: string
  panel_title :: string
  panel_company :: string
  panel_location :: string

record candidate_view =
  page_title :: "string option"
  body_text :: "string option"
  panel :: "panel_data option"
  education :: "edu_dom option"
  public_url :: string
  next_clicked :: bool

text \<open>
  The title step of \<open>_extract_from_open_panel\<close>: \<open>None\<close> is the early \<open>return None\<close>,
  \<open>Some title_review\<close> lets the candidate through. The matcher is called only under
  \<open>title_whitelist is not None and current_title\<close>.
\<close>

definition title_step :: "string set option \<Rightarrow> string \<Rightarrow> string option" where
  "title_step title_whitelist title =
     (if title_whitelist \<noteq> None \<and> title \<noteq> [] then
        (case title_matches_whitelist title title_whitelist of
           (title_passes, title_review) \<Rightarrow> if \<not> title_passes then None else Some title_review)
      else Some '''')"

definition merge_review :: "string \<Rightarrow> string \<Rightarrow> string" where
  "merge_review review_note title_review =
     (if title_review \<noteq> [] then
        (if review_note \<noteq> [] then strip_chars ''; '' (review_note @ ''; '' @ title_review)
         else title_review)
      else review_note)"

definition make_headline :: "string \<Rightarrow> string \<Rightarrow> string" where
  "make_headline title company =
     (if title \<noteq> [] \<and> company \<noteq> [] then title @ '' at '' @ company
      else if title \<noteq> [] then title else company)"

text \<open>\<open>(current_year - grad_year) if grad_year else None\<close>: zero counts as absent.\<close>

definition years_exp :: "int \<Rightarrow> int option \<Rightarrow> int option" where
  "years_exp current_year grad_year =
     (case grad_year of
        None \<Rightarrow> None
      | Some y \<Rightarrow> if y \<noteq> 0 then Some (current_year - y) else None)"

definition extract_from_open_panel ::
  "string set option \<Rightarrow> int \<Rightarrow> candidate_view \<Rightarrow> profile option" where
  "extract_from_open_panel title_whitelist current_year v =
     (case panel v of
        None \<Rightarrow> None
      | Some pd \<Rightarrow>
          let name = py_strip (panel_name pd);
              title = py_strip (panel_title pd);
              company = py_strip (panel_company pd);
              loc = py_strip (panel_location pd)
          in if name = [] then None
             else if name = ''LinkedIn Member'' then None
             else (case extract_education_from_panel (education v) of
                     (should_scrape, review_note, grad_year) \<Rightarrow>
                       if \<not> should_scrape then None
                       else (case title_step title_whitelist title of
                               None \<Rightarrow> None
                             | Some title_review \<Rightarrow>
                                 let note = merge_review review_note title_review
                                 in Some \<lparr>full_name = name,
                                          current_company = company,
                                          current_title = title,
                                          linkedin_public_url = public_url v,
                                          location = normalize_location loc,
                                          headline = make_headline title company,
                                          bachelors_grad_year = grad_year,
                                          years_experience = years_exp current_year grad_year,
                                          recruiter_url = '''',
                                          needs_review = (note \<noteq> []),
                                          review = note\<rparr>)))"

section \<open>search.py: the incremental file\<close>

text \<open>
  \<open>json.dumps(profile, ensure_ascii=False)\<close> for a profile dict: the keys in insertion
  order, separated by \<open>", "\<close> and \<open>": "\<close>. In a string the quote, the backslash and the
  control characters below 0x20 are escaped; every other character, U+007F and the
  Latin-1 range included, is written as it is.
\<close>

definition hex_digit :: "nat \<Rightarrow> char" where
  "hex_digit d = (if d < 10 then char_of (48 + d) else char_of (87 + d))"

definition json_escape_char :: "char \<Rightarrow> string" where
  "json_escape_char c =
     (let n = code_point c
      in if n = 34 then [CHR 0x5C, CHR 0x22]
         else if n = 92 then [CHR 0x5C, CHR 0x5C]
         else if n = 8 then [CHR 0x5C, CHR ''b'']
         else if n = 12 then [CHR 0x5C, CHR ''f'']
         else if n = 10 then [CHR 0x5C, CHR ''n'']
         else if n = 13 then [CHR 0x5C, CHR ''r'']
         else if n = 9 then [CHR 0x5C, CHR ''t'']
         else if n < 32 then [CHR 0x5C, CHR ''u'', CHR ''0'', CHR ''0'',
                              hex_digit (n div 16), hex_digit (n mod 16)]
         else [c])"

definition json_str :: "string \<Rightarrow> string" where
  "json_str s = [CHR 0x22] @ concat (map json_escape_char s) @ [CHR 0x22]"

definition json_opt_int :: "int option \<Rightarrow> string" where
  "json_opt_int v = (case v of None \<Rightarrow> ''null'' | Some i \<Rightarrow> str_of_int i)"

definition json_bool :: "bool \<Rightarrow> string" where
  "json_bool b = (if b then ''true'' else ''false'')"

definition json_item :: "string \<Rightarrow> string \<Rightarrow> string" where
  "json_item key text = json_str key @ '': '' @ text"

definition profile_dumps :: "profile \<Rightarrow> string" where
  "profile_dumps p =
     ''{'' @ json_item ''full_name'' (json_str (full_name p))
     @ '', '' @ json_item ''current_company'' (json_str (current_company p))
     @ '', '' @ json_item ''current_title'' (json_str (current_title p))
     @ '', '' @ json_item ''linkedin_public_url'' (json_str (linkedin_public_url p))
     @ '', '' @ json_item ''location'' (json_str (location p))
     @ '', '' @ json_item ''headline'' (json_str (headline p))
     @ '', '' @ json_item ''bachelors_grad_year'' (json_opt_int (bachelors_grad_year p))
     @ '', '' @ json_item ''years_experience'' (json_opt_int (years_experience p))
     @ '', '' @ json_item ''recruiter_url'' (json_str (recruiter_url p))
     @ '', '' @ json_item ''needs_review'' (json_bool (needs_review p))
     @ '', '' @ json_item ''review'' (json_str (review p))
     @ ''}''"

text \<open>
  The state that the run changes: the text of \<open>output/_incremental_profiles.jsonl\<close>
  (\<open>None\<close> while the file does not exist) and the trace of what the run did and reported.
\<close>

datatype event =
    Goto string
  | ClearFile
  | PageStart int
  | CrashReport nat string

record world =
  incremental_file :: "string option"
  events :: "event list"

definition emit :: "event \<Rightarrow> world \<Rightarrow> world" where
  "emit e w = w\<lparr>events := events w @ [e]\<rparr>"

definition profile_line :: "profile \<Rightarrow> string" where
  "profile_line p = profile_dumps p @ [CHR 0x0A]"

text \<open>\<open>_save_profiles_incrementally\<close>: append one line per profile; nothing for \<open>[]\<close>.\<close>

definition save_profiles_incrementally :: "profile list \<Rightarrow> world \<Rightarrow> world" where
  "save_profiles_incrementally profiles w =
     (if profiles = [] then w
      else w\<lparr>incremental_file :=
               Some ((case incremental_file w of None \<Rightarrow> [] | Some old \<Rightarrow> old)
                     @ concat (map profile_line profiles))\<rparr>)"

definition clear_incremental_file :: "world \<Rightarrow> world" where
  "clear_incremental_file w = emit ClearFile (w\<lparr>incremental_file := None\<rparr>)"

section \<open>profile_navigation.py: the traversal of one result page\<close>

definition is_chrome_crashed :: "candidate_view \<Rightarrow> bool" where
  "is_chrome_crashed v =
     (case page_title v of
        None \<Rightarrow> True
      | Some title \<Rightarrow>
          if list_ex (\<lambda>phrase. str_in phrase (lower title))
               [''aw, snap'', ''error'', ''page unresponsive'']
          then True
          else (case body_text v of
                  None \<Rightarrow> True
                | Some content \<Rightarrow> str_in ''aw, snap'' (lower content)))"

text \<open>
  \<open>f"page {page_num}, candidate {candidate_num}" if page_num else f"candidate {candidate_num}"\<close>
\<close>

definition resume_msg :: "int \<Rightarrow> nat \<Rightarrow> string" where
  "resume_msg page_num candidate_num =
     (if page_num \<noteq> 0
      then ''page '' @ str_of_int page_num @ '', candidate '' @ str_of_int (int candidate_num)
      else ''candidate '' @ str_of_int (int candidate_num))"

text \<open>The extraction step of the loop: a record is appended to the list and to the file.\<close>

definition extract_step ::
  "string set option \<Rightarrow> int \<Rightarrow> candidate_view \<Rightarrow> profile list \<Rightarrow> world \<Rightarrow> profile list \<times> world" where
  "extract_step title_whitelist current_year v profiles w =
     (case extract_from_open_panel title_whitelist current_year v of
        Some profile_data \<Rightarrow>
          (profiles @ [profile_data], save_profiles_incrementally [profile_data] w)
      | None \<Rightarrow> (profiles, w))"

text \<open>
  The \<open>while True\<close> loop. \<open>shown n\<close> is what the page shows in the \<open>n\<close>-th pass; the loop
  ends at a crashed tab or when the next candidate cannot be clicked, and it need not end.
\<close>

partial_function (option) nav_loop ::
  "string set option \<Rightarrow> int \<Rightarrow> int \<Rightarrow> (nat \<Rightarrow> candidate_view) \<Rightarrow> nat \<Rightarrow> profile list \<Rightarrow> world
     \<Rightarrow> (profile list \<times> world) option" where
  "nav_loop title_whitelist current_year page_num shown candidate_num profiles w =
     (if is_chrome_crashed (shown (candidate_num + 1))
      then Some (profiles,
                 emit (CrashReport (length profiles) (resume_msg page_num (candidate_num + 1))) w)
      else if \<not> next_clicked (shown (candidate_num + 1))
      then Some (extract_step title_whitelist current_year (shown (candidate_num + 1)) profiles w)
      else nav_loop title_whitelist current_year page_num shown (candidate_num + 1)
             (fst (extract_step title_whitelist current_year (shown (candidate_num + 1)) profiles w))
             (snd (extract_step title_whitelist current_year (shown (candidate_num + 1)) profiles w)))"

declare nav_loop.simps [code]

record page_view =
  results_found :: bool
  first_link :: bool
  panel_opens :: bool
  shown_candidates :: "nat \<Rightarrow> candidate_view"
  next_page :: bool

definition process_page_via_navigation ::
  "string set option \<Rightarrow> int \<Rightarrow> int \<Rightarrow> page_view \<Rightarrow> world \<Rightarrow> (profile list \<times> world) option" where
  "process_page_via_navigation title_whitelist current_year page_num pv w =
     (if \<not> first_link pv then Some ([], w)
      else if \<not> panel_opens pv then Some ([], w)
      else nav_loop title_whitelist current_year page_num (shown_candidates pv) 0 [] w)"

section \<open>search.py: the pagination\<close>

text \<open>
  \<open>urlparse\<close>, \<open>parse_qs\<close>, \<open>urlencode\<close> and \<open>urlunparse\<close> belong to the standard library
  and are parameters of the model. The dict that \<open>parse_qs\<close> returns is an association
  list in insertion order; \<open>query_params['start'] = [...]\<close> replaces the value of an
  existing key in place and appends a new key at the end.
\<close>

record parsed_url =
  scheme :: string
  netloc :: string
  path :: string
  params :: string
  query :: string
  fragment :: string

record urllib =
  urlparse :: "string \<Rightarrow> parsed_url"
  parse_qs :: "string \<Rightarrow> (string \<times> string list) list"
  urlencode :: "(string \<times> string list) list \<Rightarrow> string"
  urlunparse :: "parsed_url \<Rightarrow> string"

definition start_index :: "int \<Rightarrow> int" where
  "start_index start_page = (start_page - 1) * 25"

definition new_query_params :: "urllib \<Rightarrow> string \<Rightarrow> int \<Rightarrow> (string \<times> string list) list" where
  "new_query_params lib url start_page =
     AList.update ''start'' [str_of_int (start_index start_page)]
       (parse_qs lib (query (urlparse lib url)))"

definition rewrite_url :: "urllib \<Rightarrow> string \<Rightarrow> int \<Rightarrow> string" where
  "rewrite_url lib url start_page =
     urlunparse lib
       ((urlparse lib url)\<lparr>query := urlencode lib (new_query_params lib url start_page)\<rparr>)"

record search_config =
  saved_search_url :: "string option"
  start_page :: "int option"
  max_pages :: "int option"

record browser =
  goto_ok :: bool
  pages :: "int \<Rightarrow> page_view"
  current_year :: int

text \<open>
  What the driver answers during a run: whether \<open>page.goto\<close> returns or raises, what each
  result page shows, and the year of \<open>datetime.now()\<close>. \<open>page.goto\<close> is the one driver call
  of \<open>run_search\<close> outside a \<open>try\<close> block; the calls inside \<open>try\<close> blocks fail into the
  branch that the source gives them, which the fields of \<open>page_view\<close> and
  \<open>candidate_view\<close> select.
\<close>

datatype error = ValueError string | DriverError

text \<open>\<open>search_config.get("start_page", 1)\<close> and \<open>search_config.get("max_pages", 10)\<close>.\<close>

definition get_start_page :: "search_config \<Rightarrow> int" where
  "get_start_page cfg = (case start_page cfg of None \<Rightarrow> 1 | Some n \<Rightarrow> n)"

definition get_max_pages :: "search_config \<Rightarrow> int" where
  "get_max_pages cfg = (case max_pages cfg of None \<Rightarrow> 10 | Some n \<Rightarrow> n)"

text \<open>
  The \<open>for page_num in range(start_page, max_pages + 1)\<close> loop. The traversal of a page is
  called without \<open>page_num\<close>, which therefore has its default 0.
\<close>

fun search_pages ::
  "string set option \<Rightarrow> browser \<Rightarrow> int list \<Rightarrow> profile list \<Rightarrow> int \<Rightarrow> world
     \<Rightarrow> ((profile list \<times> int) \<times> world) option" where
  "search_pages title_whitelist b [] all_profiles last_page w = Some ((all_profiles, last_page), w)"
| "search_pages title_whitelist b (page_num # rest) all_profiles last_page w =
     (if \<not> results_found (pages b page_num)
      then Some ((all_profiles, page_num), emit (PageStart page_num) w)
      else (case process_page_via_navigation title_whitelist (current_year b) 0
                   (pages b page_num) (emit (PageStart page_num) w) of
              None \<Rightarrow> None
            | Some (profiles, w') \<Rightarrow>
                if \<not> next_page (pages b page_num)
                then Some ((all_profiles @ profiles, page_num), w')
                else search_pages title_whitelist b rest (all_profiles @ profiles) page_num w'))"

text \<open>
  \<open>run_search\<close>. The result is \<open>None\<close> when a page traversal does not end, \<open>Inl\<close> with the
  exception that leaves the function and the state at that point, \<open>Inr\<close> with the returned
  pair \<open>(all_profiles, last_page)\<close> and the final state.
\<close>

definition run_search ::
  "urllib \<Rightarrow> search_config \<Rightarrow> string set option \<Rightarrow> browser \<Rightarrow> world
     \<Rightarrow> (error \<times> world + (profile list \<times> int) \<times> world) option" where
  "run_search lib cfg title_whitelist b w =
     (case saved_search_url cfg of
        None \<Rightarrow> Some (Inl (ValueError ''Provide saved_search_url in config.yaml'', w))
      | Some url \<Rightarrow>
          if url = [] then Some (Inl (ValueError ''Provide saved_search_url in config.yaml'', w))
          else let first_page = get_start_page cfg;
                   w1 = emit (Goto (rewrite_url lib url first_page)) w
               in if \<not> goto_ok b then Some (Inl (DriverError, w1))
                  else map_option Inr
                         (search_pages title_whitelist b [first_page..get_max_pages cfg] []
                            first_page (clear_incremental_file w1)))"

text \<open>The state in which a call of \<open>run_search\<close> leaves the world, however it ends.\<close>

definition final_world :: "error \<times> world + (profile list \<times> int) \<times> world \<Rightarrow> world" where
  "final_world r = (case r of Inl (e, w) \<Rightarrow> w | Inr (res, w) \<Rightarrow> w)"

definition is_goto :: "event \<Rightarrow> bool" where
  "is_goto e = (case e of Goto u \<Rightarrow> True | _ \<Rightarrow> False)"

text \<open>The file after the lines of \<open>profiles\<close> were appended to a file with content \<open>f\<close>.\<close>

definition appended :: "profile list \<Rightarrow> string option \<Rightarrow> string option" where
  "appended profiles f =
     (if profiles = [] then f
      else Some ((case f of None \<Rightarrow> [] | Some old \<Rightarrow> old) @ concat (map profile_line profiles)))"

text \<open>
  What a stretch of the run does to the list of records and to the world: records are
  added at the end, their lines are appended to the file, events are added, none of
  them a navigation.
\<close>

definition effect :: "profile list \<Rightarrow> world \<Rightarrow> profile list \<Rightarrow> world \<Rightarrow> bool" where
  "effect ps w ps' w' \<longleftrightarrow>
     (\<exists>new es. ps' = ps @ new
        \<and> incremental_file w' = appended new (incremental_file w)
        \<and> events w' = events w @ es \<and> \<not> list_ex is_goto es)"

text \<open>
  \<open>load_incremental_profiles\<close>. \<open>str.splitlines\<close> ends a line at \<open>\n\<close>, \<open>\r\<close>, \<open>\r\n\<close>,
  \<open>\x0b\<close>, \<open>\x0c\<close>, \<open>\x1c\<close>, \<open>\x1d\<close>, \<open>\x1e\<close> and \<open>\x85\<close> (and at U+2028 and U+2029,
  beyond this embedding); a text that ends in a line end has no empty last line.
  \<open>json.loads\<close> is a parameter: \<open>None\<close> stands for \<open>JSONDecodeError\<close>, and the line is
  skipped.
\<close>

definition line_end :: "char \<Rightarrow> bool" where
  "line_end c =
     (let n = code_point c
      in n = 10 \<or> n = 11 \<or> n = 12 \<or> n = 13 \<or> n = 28 \<or> n = 29 \<or> n = 30 \<or> n = 133)"

fun splitlines_from :: "string \<Rightarrow> string \<Rightarrow> string list" where
  "splitlines_from cur [] = (if cur = [] then [] else [cur])"
| "splitlines_from cur (c # cs) =
     (if c = CHR 0x0D \<and> first_char cs = Some (CHR 0x0A) then cur # splitlines_from [] (tl cs)
      else if line_end c then cur # splitlines_from [] cs
      else splitlines_from (cur @ [c]) cs)"

definition splitlines :: "string \<Rightarrow> string list" where
  "splitlines text = splitlines_from [] text"

definition load_incremental_profiles :: "(string \<Rightarrow> 'v option) \<Rightarrow> world \<Rightarrow> 'v list" where
  "load_incremental_profiles json_loads w =
     (case incremental_file w of
        None \<Rightarrow> []
      | Some text \<Rightarrow> List.map_filter json_loads (splitlines text))"

section \<open>Example inputs\<close>

text \<open>
  A candidate whose panel shows the given name and title, with one bachelor's row that
  ends in 2016; a crashed tab; stand-ins for the URL functions of the standard library on
  the URL \<open>https://www.linkedin.com/talent/search?q=dev&start=75\<close>.
\<close>

definition example_candidate :: "string \<Rightarrow> string \<Rightarrow> bool \<Rightarrow> candidate_view" where
  "example_candidate name title has_next =
     \<lparr>page_title = Some ''Recruiter'',
      body_text = Some ''Profile'',
      panel = Some \<lparr>panel_name = name, panel_title = title,
                    panel_company = ''Analytical Engines'',
                    panel_location = ''Brooklyn, New York, United States''\<rparr>,
      education = Some \<lparr>items = [\<lparr>degree_el = Some ''Bachelor of Science'',
                                    dates_times = Some [''2012'', ''2016'']\<rparr>],
                        show_more_btn = False\<rparr>,
      public_url = ''https://www.linkedin.com/in/ada'',
      next_clicked = has_next\<rparr>"

definition crashed_tab :: candidate_view where
  "crashed_tab =
     \<lparr>page_title = Some ''Aw, Snap!'', body_text = Some '''', panel = None, education = None,
      public_url = '''', next_clicked = False\<rparr>"

definition example_page :: page_view where
  "example_page =
     \<lparr>results_found = True, first_link = True, panel_opens = True,
      shown_candidates =
        (\<lambda>n. if n = 1 then example_candidate ''Ada Byron'' ''Software Engineer'' True
             else crashed_tab),
      next_page = False\<rparr>"

definition example_browser :: "bool \<Rightarrow> browser" where
  "example_browser navigates =
     \<lparr>goto_ok = navigates, pages = (\<lambda>n. example_page), current_year = 2026\<rparr>"

definition example_url :: string where
  "example_url = ''https://www.linkedin.com/talent/search?q=dev&start=75''"

fun str_join :: "string \<Rightarrow> string list \<Rightarrow> string" where
  "str_join sep [] = []"
| "str_join sep [x] = x"
| "str_join sep (x # y # ys) = x @ sep @ str_join sep (y # ys)"

definition example_lib :: urllib where
  "example_lib =
     \<lparr>urlparse = (\<lambda>u. \<lparr>scheme = ''https'', netloc = ''www.linkedin.com'',
                         path = ''/talent/search'', params = '''',
                         query = ''q=dev&start=75'', fragment = ''''\<rparr>),
      parse_qs = (\<lambda>q. [(''q'', [''dev'']), (''start'', [''75''])]),
      urlencode = (\<lambda>d. str_join ''&'' (map (\<lambda>(k, vs). k @ ''='' @ concat vs) d)),
      urlunparse = (\<lambda>p. scheme p @ ''://'' @ netloc p @ path p @ ''?'' @ query p)\<rparr>"

definition example_config :: "int \<Rightarrow> search_config" where
  "example_config first_page =
     \<lparr>saved_search_url = Some example_url, start_page = Some first_page,
      max_pages = Some first_page\<rparr>"

definition old_world :: world where
  "old_world = \<lparr>incremental_file = Some ''previous run'', events = []\<rparr>"

definition example_profile :: "string \<Rightarrow> profile" where
  "example_profile name =
     \<lparr>full_name = name, current_company = ''Analytical Engines'',
      current_title = ''Software Engineer'',
      linkedin_public_url = ''https://www.linkedin.com/in/ada'',
      location = ''NYC'', headline = ''Software Engineer at Analytical Engines'',
      bachelors_grad_year = Some 2016, years_experience = Some 10,
      recruiter_url = '''', needs_review = False, review = ''''\<rparr>"

text \<open>
  The fields of a record that hold text, in the order of the dict. The two numbers and the
  flag are written by \<open>json.dumps\<close> with digits and letters only.
\<close>

definition text_fields :: "profile \<Rightarrow> string list" where
  "text_fields p =
     [full_name p, current_company p, current_title p, linkedin_public_url p, location p,
      headline p, recruiter_url p, review p]"

section \<open>Verification\<close>

subsection \<open>The title matcher\<close>

text \<open>
  Claim C4. Whatever the whitelist is, a title whose lowered text contains a phrase of
  the blacklist is rejected: the matcher returns \<open>(False, "")\<close>, also when a phrase of
  the whitelist occurs in the same title.
\<close>

theorem blacklist_overrides_whitelist:
  "\<exists>phrase\<in>TITLE_BLACKLIST. str_in phrase (lower title) \<Longrightarrow>
   title_matches_whitelist title whitelist = (False, '''')"
  by (simp add: title_matches_whitelist_def)

theorem blacklist_overrides_whitelist_witness:
  "(\<exists>phrase\<in>TITLE_BLACKLIST. str_in phrase (lower ''Director of Software Engineering''))
   \<and> (\<exists>phrase\<in>{''software engineer''}. str_in phrase (lower ''Director of Software Engineering''))
   \<and> title_matches_whitelist ''Director of Software Engineering'' (Some {''software engineer''})
       = (False, '''')"
proof -
  have l: "lower ''Director of Software Engineering'' = ''director of software engineering''"
    by code_simp
  have h: "\<exists>phrase\<in>TITLE_BLACKLIST. str_in phrase (lower ''Director of Software Engineering'')"
    unfolding l by (simp add: TITLE_BLACKLIST_def)
  have w: "\<exists>phrase\<in>{''software engineer''}. str_in phrase (lower ''Director of Software Engineering'')"
    unfolding l by simp
  from h w blacklist_overrides_whitelist [OF h, of "Some {''software engineer''}"]
  show ?thesis by blast
qed

text \<open>
  Claim C10. With no whitelist (\<open>None\<close>) or an empty one, every title whose lowered text
  contains no blacklist phrase passes; the review note is non-empty exactly when a
  soft-flag phrase occurs in the lowered title, and it is then the note for "head of".
\<close>

theorem no_whitelist_passes:
  assumes "\<not> (\<exists>phrase\<in>TITLE_BLACKLIST. str_in phrase (lower title))"
    and "whitelist = None \<or> whitelist = Some {}"
  shows "fst (title_matches_whitelist title whitelist) = True
       \<and> (snd (title_matches_whitelist title whitelist) \<noteq> ''''
            \<longleftrightarrow> (\<exists>phrase\<in>set TITLE_REVIEW_FLAGS. str_in phrase (lower title)))
       \<and> (snd (title_matches_whitelist title whitelist)
            = (if str_in ''head of'' (lower title) then title_review_note ''head of'' else ''''))"
  using assms
  by (auto simp: title_matches_whitelist_def whitelist_rejects_def TITLE_REVIEW_FLAGS_def
      title_review_note_def Let_def)

theorem no_whitelist_passes_witness:
  "\<not> (\<exists>phrase\<in>TITLE_BLACKLIST. str_in phrase (lower ''Head of Product''))
   \<and> fst (title_matches_whitelist ''Head of Product'' None) = True
   \<and> snd (title_matches_whitelist ''Head of Product'' None) = title_review_note ''head of''
   \<and> \<not> (\<exists>phrase\<in>TITLE_BLACKLIST. str_in phrase (lower ''Staff Engineer''))
   \<and> title_matches_whitelist ''Staff Engineer'' (Some {}) = (True, '''')"
proof -
  have l1: "lower ''Head of Product'' = ''head of product''"
    by code_simp
  have l2: "lower ''Staff Engineer'' = ''staff engineer''"
    by code_simp
  have h1: "\<not> (\<exists>phrase\<in>TITLE_BLACKLIST. str_in phrase (lower ''Head of Product''))"
    unfolding l1 by (simp add: TITLE_BLACKLIST_def)
  have h2: "\<not> (\<exists>phrase\<in>TITLE_BLACKLIST. str_in phrase (lower ''Staff Engineer''))"
    unfolding l2 by (simp add: TITLE_BLACKLIST_def)
  have f1: "str_in ''head of'' (lower ''Head of Product'')"
    unfolding l1 by simp
  have f2: "\<not> str_in ''head of'' (lower ''Staff Engineer'')"
    unfolding l2 by simp
  from no_whitelist_passes [OF h1, of None] f1
  have r1: "fst (title_matches_whitelist ''Head of Product'' None) = True
      \<and> snd (title_matches_whitelist ''Head of Product'' None) = title_review_note ''head of''"
    by simp
  from no_whitelist_passes [OF h2, of "Some {}"] f2
  have r2: "title_matches_whitelist ''Staff Engineer'' (Some {}) = (True, '''')"
    by (simp add: prod_eq_iff)
  from h1 h2 r1 r2 show ?thesis by blast
qed

subsection \<open>The degree and year parser\<close>

text \<open>
  Claim C9. A text whose lowered form contains one of the disqualifying substrings
  yields \<open>None\<close>, whatever bachelor's keywords and year tokens it holds besides.
\<close>

theorem skip_pattern_gives_none:
  "\<exists>skip\<in>set skip_patterns. str_in skip (lower text) \<Longrightarrow>
   parse_bachelors_year_from_text text = None"
  by (simp add: parse_bachelors_year_from_text_def)

theorem skip_pattern_gives_none_witness:
  "(\<exists>skip\<in>set skip_patterns. str_in skip (lower ''Bachelor of Science, then MBA 2012 - 2016''))
   \<and> (\<exists>kw\<in>set BACHELORS_KW. str_in kw (lower ''Bachelor of Science, then MBA 2012 - 2016''))
   \<and> findall_year None ''Bachelor of Science, then MBA 2012 - 2016'' \<noteq> []
   \<and> parse_bachelors_year_from_text ''Bachelor of Science, then MBA 2012 - 2016'' = None"
proof -
  have l: "lower ''Bachelor of Science, then MBA 2012 - 2016''
             = ''bachelor of science, then mba 2012 - 2016''"
    by code_simp
  have h: "\<exists>skip\<in>set skip_patterns. str_in skip (lower ''Bachelor of Science, then MBA 2012 - 2016'')"
    unfolding l by (simp add: skip_patterns_def)
  have k: "\<exists>kw\<in>set BACHELORS_KW. str_in kw (lower ''Bachelor of Science, then MBA 2012 - 2016'')"
    unfolding l by (simp add: BACHELORS_KW_def)
  have y: "findall_year None ''Bachelor of Science, then MBA 2012 - 2016'' \<noteq> []"
    by code_simp
  from h k y skip_pattern_gives_none [OF h] show ?thesis by blast
qed

text \<open>
  The year pattern has one capturing group, so every element that \<open>findall\<close> returns is
  the text of that group, "19" or "20", and the parser never returns a four-digit year.
\<close>

lemma year_at_group: "year_at prev s = Some g \<Longrightarrow> g = ''19'' \<or> g = ''20''"
  by (auto simp: year_at_def split: list.splits if_splits)

lemma findall_year_groups: "g \<in> set (findall_year prev s) \<Longrightarrow> g = ''19'' \<or> g = ''20''"
proof (induction prev s rule: findall_year.induct)
  case (1 prev)
  then show ?case by simp
next
  case (2 prev c cs)
  then show ?case
    by (cases "year_at prev (c # cs)") (auto dest: year_at_group)
qed

lemma int_of_digits_19: "int_of_digits ''19'' = 19"
  by (simp add: int_of_digits_def digit_value_def code_point_def)

lemma int_of_digits_20: "int_of_digits ''20'' = 20"
  by (simp add: int_of_digits_def digit_value_def code_point_def)

lemma parser_returns_century_only:
  "parse_bachelors_year_from_text text \<in> {None, Some 19, Some 20}"
proof -
  have "int_of_digits (last (findall_year None text)) \<in> {19, 20}"
    if "findall_year None text \<noteq> []"
  proof -
    from that have "last (findall_year None text) \<in> set (findall_year None text)" by simp
    then have "last (findall_year None text) = ''19'' \<or> last (findall_year None text) = ''20''"
      by (rule findall_year_groups)
    then show ?thesis using int_of_digits_19 int_of_digits_20 by auto
  qed
  then show ?thesis
    by (auto simp: parse_bachelors_year_from_text_def Let_def)
qed

text \<open>
  Claim C1. The docstring of the parser gives
  \<open>"National Institute of Technology Rourkela, Bachelors \<cdot> 2017"\<close> as an example that
  yields 2017. The text has a bachelor's keyword, no disqualifying substring and the year
  token 2017; the code returns 20, the captured group of the last match.
\<close>

theorem parser_docstring_example:
  "parse_bachelors_year_from_text
     (''National Institute of Technology Rourkela, Bachelors '' @ [CHR 0xB7] @ '' 2017'') = Some 20"
  by code_simp

lemma parser_range_example:
  "parse_bachelors_year_from_text ''Brown University, Bachelor of Arts 2012 - 2016'' = Some 20"
  by code_simp

subsection \<open>Education classification\<close>

text \<open>
  Claim C2. The decision table, row by row, on what the panel shows. With no education
  row the candidate passes with "no education"; with rows and the "show more" button the
  candidate is skipped; otherwise the bachelor's entries among the rows decide: exactly
  one with a year (passes iff the year is in 2010..2024, the year is returned), exactly
  one without a year, more than one, none but a master's entry, none at all.
\<close>

theorem education_decision_table:
  "(items d = [] \<longrightarrow> extract_education_from_panel (Some d) = (True, ''no education'', None))
 \<and> (items d \<noteq> [] \<and> show_more_btn d \<longrightarrow> extract_education_from_panel (Some d) = (False, '''', None))
 \<and> (items d \<noteq> [] \<and> \<not> show_more_btn d \<longrightarrow>
      (\<forall>b y. filter is_bachelor (map item_entry (items d)) = [b] \<and> year b = Some y \<longrightarrow>
         extract_education_from_panel (Some d) = (2010 \<le> y \<and> y \<le> 2024, '''', Some y))
    \<and> (\<forall>b. filter is_bachelor (map item_entry (items d)) = [b] \<and> year b = None \<longrightarrow>
         extract_education_from_panel (Some d) = (True, ''no edu year - review'', None))
    \<and> (length (filter is_bachelor (map item_entry (items d))) > 1 \<longrightarrow>
         extract_education_from_panel (Some d) = (True, ''multi bachelor - review'', None))
    \<and> (filter is_bachelor (map item_entry (items d)) = []
          \<and> (\<exists>e\<in>set (map item_entry (items d)). is_master e) \<longrightarrow>
         extract_education_from_panel (Some d)
           = (True, ''No bachelor'' @ [CHR 0x27] @ ''s - review'', None))
    \<and> (filter is_bachelor (map item_entry (items d)) = []
          \<and> \<not> (\<exists>e\<in>set (map item_entry (items d)). is_master e) \<longrightarrow>
         extract_education_from_panel (Some d) = (False, '''', None)))"
proof -
  define bs where "bs = filter is_bachelor (map item_entry (items d))"
  show ?thesis
    unfolding bs_def [symmetric]
    by (cases bs)
      (auto simp: extract_education_from_panel_def edu_script_def classify_education_def Let_def
         list_ex_iff bs_def [symmetric] simp del: filter_map)
qed

theorem education_decision_table_witness:
  "extract_education_from_panel (Some \<lparr>items = [], show_more_btn = True\<rparr>)
     = (True, ''no education'', None)
 \<and> extract_education_from_panel
      (Some \<lparr>items = [\<lparr>degree_el = Some ''BSc'', dates_times = Some [''2012'']\<rparr>],
             show_more_btn = True\<rparr>)
     = (False, '''', None)
 \<and> extract_education_from_panel
      (Some \<lparr>items = [\<lparr>degree_el = Some ''Bachelor of Science'',
                        dates_times = Some [''2012'', ''2016'']\<rparr>],
             show_more_btn = False\<rparr>)
     = (True, '''', Some 2016)
 \<and> extract_education_from_panel
      (Some \<lparr>items = [\<lparr>degree_el = Some ''BS'', dates_times = Some [''2009'']\<rparr>],
             show_more_btn = False\<rparr>)
     = (False, '''', Some 2009)
 \<and> extract_education_from_panel
      (Some \<lparr>items = [\<lparr>degree_el = Some ''B.Tech'', dates_times = None\<rparr>],
             show_more_btn = False\<rparr>)
     = (True, ''no edu year - review'', None)
 \<and> extract_education_from_panel
      (Some \<lparr>items = [\<lparr>degree_el = Some ''BA'', dates_times = Some [''2015'']\<rparr>,
                      \<lparr>degree_el = Some ''Bachelor of Laws'', dates_times = Some [''2018'']\<rparr>],
             show_more_btn = False\<rparr>)
     = (True, ''multi bachelor - review'', None)
 \<and> extract_education_from_panel
      (Some \<lparr>items = [\<lparr>degree_el = Some ''Master of Science'', dates_times = Some [''2015'']\<rparr>],
             show_more_btn = False\<rparr>)
     = (True, ''No bachelor'' @ [CHR 0x27] @ ''s - review'', None)
 \<and> extract_education_from_panel
      (Some \<lparr>items = [\<lparr>degree_el = Some ''Diploma'', dates_times = Some [''2012'']\<rparr>],
             show_more_btn = False\<rparr>)
     = (False, '''', None)"
proof -
  let ?d1 = "\<lparr>items = [], show_more_btn = True\<rparr>"
  let ?d2 = "\<lparr>items = [\<lparr>degree_el = Some ''BSc'', dates_times = Some [''2012'']\<rparr>],
             show_more_btn = True\<rparr>"
  let ?d3 = "\<lparr>items = [\<lparr>degree_el = Some ''Bachelor of Science'',
                        dates_times = Some [''2012'', ''2016'']\<rparr>],
             show_more_btn = False\<rparr>"
  let ?d4 = "\<lparr>items = [\<lparr>degree_el = Some ''BS'', dates_times = Some [''2009'']\<rparr>],
             show_more_btn = False\<rparr>"
  let ?d5 = "\<lparr>items = [\<lparr>degree_el = Some ''B.Tech'', dates_times = None\<rparr>],
             show_more_btn = False\<rparr>"
  let ?d6 = "\<lparr>items = [\<lparr>degree_el = Some ''BA'', dates_times = Some [''2015'']\<rparr>,
                      \<lparr>degree_el = Some ''Bachelor of Laws'', dates_times = Some [''2018'']\<rparr>],
             show_more_btn = False\<rparr>"
  let ?d7 = "\<lparr>items = [\<lparr>degree_el = Some ''Master of Science'', dates_times = Some [''2015'']\<rparr>],
             show_more_btn = False\<rparr>"
  let ?d8 = "\<lparr>items = [\<lparr>degree_el = Some ''Diploma'', dates_times = Some [''2012'']\<rparr>],
             show_more_btn = False\<rparr>"
  have r1: "extract_education_from_panel (Some ?d1) = (True, ''no education'', None)"
    using education_decision_table [of ?d1] by simp
  have r2: "extract_education_from_panel (Some ?d2) = (False, '''', None)"
    using education_decision_table [of ?d2] by simp
  have b3: "filter is_bachelor (map item_entry (items ?d3))
              = [\<lparr>degree = ''Bachelor of Science'', year = Some 2016\<rparr>]"
    by code_simp
  have r3: "extract_education_from_panel (Some ?d3) = (True, '''', Some 2016)"
    using education_decision_table [of ?d3] b3 by simp
  have b4: "filter is_bachelor (map item_entry (items ?d4)) = [\<lparr>degree = ''BS'', year = Some 2009\<rparr>]"
    by code_simp
  have r4: "extract_education_from_panel (Some ?d4) = (False, '''', Some 2009)"
    using education_decision_table [of ?d4] b4 by simp
  have b5: "filter is_bachelor (map item_entry (items ?d5)) = [\<lparr>degree = ''B.Tech'', year = None\<rparr>]"
    by code_simp
  have r5: "extract_education_from_panel (Some ?d5) = (True, ''no edu year - review'', None)"
    using education_decision_table [of ?d5] b5 by simp
  have b6: "length (filter is_bachelor (map item_entry (items ?d6))) = 2"
    by code_simp
  have r6: "extract_education_from_panel (Some ?d6) = (True, ''multi bachelor - review'', None)"
    using education_decision_table [of ?d6] b6 by simp
  have b7: "filter is_bachelor (map item_entry (items ?d7)) = []"
    by code_simp
  have m7: "\<exists>e\<in>set (map item_entry (items ?d7)). is_master e"
    by code_simp
  have r7: "extract_education_from_panel (Some ?d7)
              = (True, ''No bachelor'' @ [CHR 0x27] @ ''s - review'', None)"
    using education_decision_table [of ?d7] b7 m7 by simp
  have b8: "filter is_bachelor (map item_entry (items ?d8)) = []"
    by code_simp
  have m8: "\<not> (\<exists>e\<in>set (map item_entry (items ?d8)). is_master e)"
    by code_simp
  have r8: "extract_education_from_panel (Some ?d8) = (False, '''', None)"
    using education_decision_table [of ?d8] b8 m8 by simp
  from r1 r2 r3 r4 r5 r6 r7 r8 show ?thesis by blast
qed

subsection \<open>Extraction from the open panel\<close>

text \<open>
  Claim C7. For a candidate with a name and an education that passes, the title matcher
  decides only when a whitelist is loaded and the stripped title is non-empty: then the
  candidate is dropped exactly when the matcher rejects. With no whitelist, or with an
  empty title, the candidate passes whatever the title is, with the education note as its
  only review note.
\<close>

theorem title_filter_gating:
  assumes "panel v = Some pd"
    and "py_strip (panel_name pd) \<noteq> []"
    and "py_strip (panel_name pd) \<noteq> ''LinkedIn Member''"
    and "extract_education_from_panel (education v) = (True, note, gy)"
  shows "(wl = None \<or> py_strip (panel_title pd) = [] \<longrightarrow>
            (\<exists>p. extract_from_open_panel wl cy v = Some p \<and> review p = note
                 \<and> current_title p = py_strip (panel_title pd)))
       \<and> (wl \<noteq> None \<and> py_strip (panel_title pd) \<noteq> [] \<longrightarrow>
            (extract_from_open_panel wl cy v = None
               \<longleftrightarrow> \<not> fst (title_matches_whitelist (py_strip (panel_title pd)) wl)))"
  using assms
  by (auto simp: extract_from_open_panel_def title_step_def merge_review_def Let_def
        split: prod.splits option.splits)

theorem title_filter_gating_witness:
  "title_matches_whitelist ''Director of Engineering'' None = (False, '''')
 \<and> extract_from_open_panel None 2026
      (example_candidate ''Ada Byron'' ''Director of Engineering'' True) \<noteq> None
 \<and> (\<exists>p. extract_from_open_panel (Some {''software engineer''}) 2026
            (example_candidate ''Ada Byron'' ''  '' True) = Some p
        \<and> review p = '''' \<and> current_title p = '''')
 \<and> extract_from_open_panel (Some {''software engineer''}) 2026
      (example_candidate ''Ada Byron'' ''Director of Engineering'' True) = None"
proof -
  let ?v = "\<lambda>t. example_candidate ''Ada Byron'' t True"
  let ?pd = "\<lambda>t. \<lparr>panel_name = ''Ada Byron'', panel_title = t,
                    panel_company = ''Analytical Engines'',
                    panel_location = ''Brooklyn, New York, United States''\<rparr>"
  have p: "panel (?v t) = Some (?pd t)" for t
    by (simp add: example_candidate_def)
  have n: "py_strip (panel_name (?pd t)) = ''Ada Byron''" for t
    by code_simp
  have n1: "py_strip (panel_name (?pd t)) \<noteq> []" for t
    unfolding n by simp
  have n2: "py_strip (panel_name (?pd t)) \<noteq> ''LinkedIn Member''" for t
    unfolding n by simp
  have e: "extract_education_from_panel (education (?v t)) = (True, '''', Some 2016)" for t
    unfolding example_candidate_def by code_simp
  have t1: "py_strip (panel_title (?pd ''Director of Engineering'')) = ''Director of Engineering''"
    by code_simp
  have t2: "py_strip (panel_title (?pd ''  '')) = []"
    by code_simp
  have m: "title_matches_whitelist ''Director of Engineering'' None = (False, '''')"
    by code_simp
  have m2: "\<not> fst (title_matches_whitelist ''Director of Engineering'' (Some {''software engineer''}))"
    by code_simp
  from title_filter_gating [OF p n1 n2 e, of None "''Director of Engineering''" 2026]
  have r1: "extract_from_open_panel None 2026 (?v ''Director of Engineering'') \<noteq> None"
    by auto
  from title_filter_gating [OF p n1 n2 e, of "Some {''software engineer''}" "''  ''" 2026] t2
  have r2: "\<exists>p. extract_from_open_panel (Some {''software engineer''}) 2026 (?v ''  '') = Some p
        \<and> review p = '''' \<and> current_title p = ''''"
    by auto
  from title_filter_gating [OF p n1 n2 e, of "Some {''software engineer''}"
      "''Director of Engineering''" 2026] t1 m2
  have r3: "extract_from_open_panel (Some {''software engineer''}) 2026
      (?v ''Director of Engineering'') = None"
    by auto
  from m r1 r2 r3 show ?thesis by blast
qed

subsection \<open>The effect of a traversal on the file and the trace\<close>

lemma appended_file: "incremental_file (save_profiles_incrementally ps w) = appended ps (incremental_file w)"
  by (simp add: save_profiles_incrementally_def appended_def)

lemma save_events: "events (save_profiles_incrementally ps w) = events w"
  by (simp add: save_profiles_incrementally_def)

lemma appended_append: "appended ys (appended xs f) = appended (xs @ ys) f"
  by (auto simp: appended_def split: option.splits)

lemma appended_Nil: "appended [] f = f"
  by (simp add: appended_def)

lemma extract_step_effect:
  "\<exists>new. fst (extract_step wl cy v ps w) = ps @ new
       \<and> incremental_file (snd (extract_step wl cy v ps w)) = appended new (incremental_file w)
       \<and> events (snd (extract_step wl cy v ps w)) = events w"
proof (cases "extract_from_open_panel wl cy v")
  case None
  then show ?thesis by (simp add: extract_step_def appended_Nil)
next
  case (Some p)
  then have "fst (extract_step wl cy v ps w) = ps @ [p]
       \<and> incremental_file (snd (extract_step wl cy v ps w)) = appended [p] (incremental_file w)
       \<and> events (snd (extract_step wl cy v ps w)) = events w"
    by (simp add: extract_step_def appended_file save_events)
  then show ?thesis by blast
qed

lemma effect_refl: "effect ps w ps w"
  by (auto simp: effect_def appended_Nil intro: exI [of _ "[]"])

lemma effect_trans:
  assumes "effect ps w ps' w'" and "effect ps' w' ps'' w''"
  shows "effect ps w ps'' w''"
proof -
  from assms(1) obtain new es where a: "ps' = ps @ new"
    "incremental_file w' = appended new (incremental_file w)"
    "events w' = events w @ es" "\<not> list_ex is_goto es"
    unfolding effect_def by blast
  from assms(2) obtain new' es' where b: "ps'' = ps' @ new'"
    "incremental_file w'' = appended new' (incremental_file w')"
    "events w'' = events w' @ es'" "\<not> list_ex is_goto es'"
    unfolding effect_def by blast
  from a b have "ps'' = ps @ (new @ new')"
    "incremental_file w'' = appended (new @ new') (incremental_file w)"
    "events w'' = events w @ (es @ es')" "\<not> list_ex is_goto (es @ es')"
    by (simp_all add: appended_append)
  then show ?thesis unfolding effect_def by blast
qed

lemma effect_extract_step:
  "effect ps w (fst (extract_step wl cy v ps w)) (snd (extract_step wl cy v ps w))"
proof -
  obtain new where "fst (extract_step wl cy v ps w) = ps @ new"
    "incremental_file (snd (extract_step wl cy v ps w)) = appended new (incremental_file w)"
    "events (snd (extract_step wl cy v ps w)) = events w"
    using extract_step_effect [of wl cy v ps w] by blast
  then have "fst (extract_step wl cy v ps w) = ps @ new
     \<and> incremental_file (snd (extract_step wl cy v ps w)) = appended new (incremental_file w)
     \<and> events (snd (extract_step wl cy v ps w)) = events w @ [] \<and> \<not> list_ex is_goto []"
    by simp
  then show ?thesis unfolding effect_def by blast
qed

lemma effect_emit:
  assumes "\<not> is_goto e"
  shows "effect ps w ps (emit e w)"
proof -
  from assms have "ps = ps @ []
     \<and> incremental_file (emit e w) = appended [] (incremental_file w)
     \<and> events (emit e w) = events w @ [e] \<and> \<not> list_ex is_goto [e]"
    by (simp add: emit_def appended_Nil)
  then show ?thesis unfolding effect_def by blast
qed

lemma nav_loop_effect:
  assumes "nav_loop wl cy pn shown n ps w = Some y"
  shows "effect ps w (fst y) (snd y)"
  apply (rule nav_loop.raw_induct
      [where P = "\<lambda>wl cy pn shown n ps w y. effect ps w (fst y) (snd y)", OF _ assms])
  subgoal premises prems for f wl cy pn shown n ps w y
  proof (cases "is_chrome_crashed (shown (n + 1))")
    case True
    with prems(2) have "y = (ps, emit (CrashReport (length ps) (resume_msg pn (n + 1))) w)"
      by simp
    then show ?thesis by (simp add: effect_emit is_goto_def)
  next
    case False
    note nc = this
    show ?thesis
    proof (cases "next_clicked (shown (n + 1))")
      case False
      with nc prems(2) have "y = extract_step wl cy (shown (n + 1)) ps w"
        by simp
      then show ?thesis using effect_extract_step [of ps w wl cy "shown (n + 1)"]
        by simp
    next
      case True
      with nc prems(2) have
        "f wl cy pn shown (n + 1) (fst (extract_step wl cy (shown (n + 1)) ps w))
           (snd (extract_step wl cy (shown (n + 1)) ps w)) = Some y"
        by simp
      from effect_extract_step [of ps w wl cy "shown (n + 1)"] prems(1) [OF this]
      show ?thesis by (rule effect_trans)
    qed
  qed
  done

lemma process_page_effect:
  assumes "process_page_via_navigation wl cy pn pv w = Some y"
  shows "effect [] w (fst y) (snd y)"
proof (cases "first_link pv \<and> panel_opens pv")
  case True
  with assms have "nav_loop wl cy pn (shown_candidates pv) 0 [] w = Some y"
    by (simp add: process_page_via_navigation_def)
  then show ?thesis by (rule nav_loop_effect)
next
  case False
  with assms have "y = ([], w)"
    by (auto simp: process_page_via_navigation_def split: if_splits)
  then show ?thesis by (simp add: effect_refl)
qed

lemma effect_prepend:
  assumes "effect [] w ps w'"
  shows "effect all w (all @ ps) w'"
  using assms unfolding effect_def by auto

lemma search_pages_effect:
  "search_pages wl b page_nums all lp w = Some ((all', lp'), w') \<Longrightarrow> effect all w all' w'"
proof (induction page_nums arbitrary: all lp w)
  case Nil
  then show ?case by (simp add: effect_refl)
next
  case (Cons page_num rest)
  let ?w1 = "emit (PageStart page_num) w"
  have e1: "effect all w all ?w1"
    by (rule effect_emit) (simp add: is_goto_def)
  show ?case
  proof (cases "results_found (pages b page_num)")
    case False
    with Cons.prems have "all' = all" "w' = ?w1" by auto
    with e1 show ?thesis by simp
  next
    case True
    note rf = this
    with Cons.prems obtain profiles w2 where
      pp: "process_page_via_navigation wl (current_year b) 0 (pages b page_num) ?w1
             = Some (profiles, w2)"
      by (auto split: option.splits)
    from process_page_effect [OF pp] have "effect all ?w1 (all @ profiles) w2"
      by (simp add: effect_prepend)
    with e1 have e2: "effect all w (all @ profiles) w2"
      by (rule effect_trans)
    show ?thesis
    proof (cases "next_page (pages b page_num)")
      case False
      with rf pp Cons.prems have "all' = all @ profiles" "w' = w2" by auto
      with e2 show ?thesis by simp
    next
      case True
      with rf pp Cons.prems have
        "search_pages wl b rest (all @ profiles) page_num w2 = Some ((all', lp'), w')"
        by simp
      from e2 Cons.IH [OF this] show ?thesis by (rule effect_trans)
    qed
  qed
qed

lemma run_search_Inr:
  assumes "saved_search_url cfg = Some url" and "url \<noteq> []" and "goto_ok b"
  shows "run_search lib cfg wl b w
       = map_option Inr
           (search_pages wl b [get_start_page cfg..get_max_pages cfg] [] (get_start_page cfg)
              (clear_incremental_file (emit (Goto (rewrite_url lib url (get_start_page cfg))) w)))"
  using assms by (simp add: run_search_def Let_def)

lemma run_search_events:
  assumes "saved_search_url cfg = Some url" and "url \<noteq> []"
    and "run_search lib cfg wl b w = Some r"
  shows "\<exists>es. events (final_world r)
              = events w @ Goto (rewrite_url lib url (get_start_page cfg)) # es
            \<and> \<not> list_ex is_goto es"
proof (cases "goto_ok b")
  case False
  with assms have "r = Inl (DriverError, emit (Goto (rewrite_url lib url (get_start_page cfg))) w)"
    by (simp add: run_search_def Let_def)
  then have "events (final_world r)
      = events w @ Goto (rewrite_url lib url (get_start_page cfg)) # [] \<and> \<not> list_ex is_goto []"
    by (simp add: final_world_def emit_def)
  then show ?thesis by blast
next
  case True
  let ?w2 = "clear_incremental_file (emit (Goto (rewrite_url lib url (get_start_page cfg))) w)"
  from True assms obtain all lp w' where
    sp: "search_pages wl b [get_start_page cfg..get_max_pages cfg] [] (get_start_page cfg) ?w2
           = Some ((all, lp), w')"
    and r: "r = Inr ((all, lp), w')"
    by (auto simp: run_search_Inr)
  from search_pages_effect [OF sp] obtain es where
    "events w' = events ?w2 @ es" "\<not> list_ex is_goto es"
    unfolding effect_def by blast
  with r have "events (final_world r)
      = events w @ Goto (rewrite_url lib url (get_start_page cfg)) # (ClearFile # es)
     \<and> \<not> list_ex is_goto (ClearFile # es)"
    by (simp add: final_world_def clear_incremental_file_def emit_def is_goto_def)
  then show ?thesis by blast
qed

lemma run_page3:
  "run_search example_lib (example_config 3) None (example_browser True) old_world
     = Some (Inr (([example_profile ''Ada Byron''], 3),
          \<lparr>incremental_file = Some (profile_line (example_profile ''Ada Byron'')),
           events = [Goto ''https://www.linkedin.com/talent/search?q=dev&start=50'', ClearFile,
                     PageStart 3, CrashReport 1 ''candidate 2'']\<rparr>))"
  by code_simp

subsection \<open>The start offset\<close>

text \<open>
  Claim C8. A run with a search URL navigates first to the rewritten URL: the parsed query
  with the key \<open>start\<close> set to the one value \<open>str((start_page - 1) * 25)\<close>, whatever
  the pasted URL had there, the other keys as they were, no key twice; the run makes no
  other call of \<open>page.goto\<close>.
\<close>

theorem start_offset_rewritten:
  assumes "saved_search_url cfg = Some url" and "url \<noteq> []"
    and "run_search lib cfg wl b w = Some r"
  shows "(\<exists>es. events (final_world r)
                = events w @ Goto (rewrite_url lib url (get_start_page cfg)) # es
              \<and> \<not> list_ex is_goto es)
       \<and> rewrite_url lib url (get_start_page cfg)
           = urlunparse lib ((urlparse lib url)
               \<lparr>query := urlencode lib (new_query_params lib url (get_start_page cfg))\<rparr>)
       \<and> map_of (new_query_params lib url (get_start_page cfg)) ''start''
           = Some [str_of_int ((get_start_page cfg - 1) * 25)]
       \<and> (\<forall>k. k \<noteq> ''start'' \<longrightarrow>
             map_of (new_query_params lib url (get_start_page cfg)) k
               = map_of (parse_qs lib (query (urlparse lib url))) k)
       \<and> (distinct (map fst (parse_qs lib (query (urlparse lib url)))) \<longrightarrow>
             distinct (map fst (new_query_params lib url (get_start_page cfg))))"
proof -
  have "map_of (new_query_params lib url (get_start_page cfg)) ''start''
           = Some [str_of_int ((get_start_page cfg - 1) * 25)]"
    by (simp add: new_query_params_def start_index_def update_conv')
  moreover have "\<forall>k. k \<noteq> ''start'' \<longrightarrow>
             map_of (new_query_params lib url (get_start_page cfg)) k
               = map_of (parse_qs lib (query (urlparse lib url))) k"
    by (simp add: new_query_params_def update_conv')
  moreover have "distinct (map fst (parse_qs lib (query (urlparse lib url)))) \<longrightarrow>
             distinct (map fst (new_query_params lib url (get_start_page cfg)))"
    by (simp add: new_query_params_def distinct_update)
  moreover have "rewrite_url lib url (get_start_page cfg)
           = urlunparse lib ((urlparse lib url)
               \<lparr>query := urlencode lib (new_query_params lib url (get_start_page cfg))\<rparr>)"
    by (simp add: rewrite_url_def)
  ultimately show ?thesis using run_search_events [OF assms] by blast
qed

theorem start_offset_rewritten_witness:
  "saved_search_url (example_config 3) = Some example_url
 \<and> example_url \<noteq> []
 \<and> map_of (parse_qs example_lib (query (urlparse example_lib example_url))) ''start'' = Some [''75'']
 \<and> map_of (new_query_params example_lib example_url 3) ''start'' = Some [''50'']
 \<and> (\<exists>es. events (final_world (Inr (([example_profile ''Ada Byron''], 3),
          \<lparr>incremental_file = Some (profile_line (example_profile ''Ada Byron'')),
           events = [Goto ''https://www.linkedin.com/talent/search?q=dev&start=50'', ClearFile,
                     PageStart 3, CrashReport 1 ''candidate 2'']\<rparr>)))
        = events old_world @ Goto (rewrite_url example_lib example_url 3) # es)"
proof -
  have h1: "saved_search_url (example_config 3) = Some example_url"
    by (simp add: example_config_def)
  have h2: "example_url \<noteq> []"
    by (simp add: example_url_def)
  have sp: "get_start_page (example_config 3) = 3"
    by (simp add: get_start_page_def example_config_def)
  have s50: "str_of_int ((3 - 1) * 25) = ''50''"
    by code_simp
  have old: "map_of (parse_qs example_lib (query (urlparse example_lib example_url))) ''start''
               = Some [''75'']"
    by (simp add: example_lib_def)
  from start_offset_rewritten [OF h1 h2 run_page3] h1 h2 old show ?thesis
    unfolding sp s50 by blast
qed

subsection \<open>The incremental file at the start of a run\<close>




subsection \<open>A crashed tab\<close>

text \<open>
  A crash seen before candidate \<open>n + 1\<close> ends the loop at once with the records
  accumulated so far; the report carries the resume message for that candidate.
\<close>

lemma nav_loop_stops_at_crash:
  assumes "is_chrome_crashed (shown (Suc n))"
  shows "nav_loop wl cy pn shown n ps w
           = Some (ps, emit (CrashReport (length ps) (resume_msg pn (Suc n))) w)"
  by (subst nav_loop.simps) (simp add: assms)

text \<open>
  Claim C3. A run from page 1 whose tab shows "Aw, Snap!" before candidate 2 returns the
  one record of candidate 1. \<open>run_search\<close> calls the traversal without the page number,
  so the reported resume point is "candidate 2", not "page 1, candidate 2".
\<close>

theorem crash_report_without_page_number:
  "run_search example_lib (example_config 1) None (example_browser True)
      \<lparr>incremental_file = None, events = []\<rparr>
     = Some (Inr (([example_profile ''Ada Byron''], 1),
          \<lparr>incremental_file = Some (profile_line (example_profile ''Ada Byron'')),
           events = [Goto ''https://www.linkedin.com/talent/search?q=dev&start=0'', ClearFile,
                     PageStart 1, CrashReport 1 ''candidate 2'']\<rparr>))
   \<and> resume_msg 1 2 = ''page 1, candidate 2''"
  by code_simp

subsection \<open>Loading the incremental file\<close>

text \<open>
  Claim C5. A record whose name holds U+0085 is written as one line with that character
  in it, since \<open>ensure_ascii=False\<close> leaves it unescaped; \<open>splitlines\<close> ends a line
  there. The loader hands \<open>json.loads\<close> the two pieces of the line, the first cut inside
  the string of the name, and never the line that was written.
\<close>

theorem checkpoint_line_cut_in_two:
  "load_incremental_profiles loads
     (save_profiles_incrementally [example_profile [CHR ''A'', CHR 0x85, CHR ''B'']]
        \<lparr>incremental_file = None, events = []\<rparr>)
   = List.map_filter loads
       [take 16 (profile_dumps (example_profile [CHR ''A'', CHR 0x85, CHR ''B''])),
        drop 17 (profile_dumps (example_profile [CHR ''A'', CHR 0x85, CHR ''B'']))]
 \<and> take 16 (profile_dumps (example_profile [CHR ''A'', CHR 0x85, CHR ''B'']))
     = ''{'' @ [CHR 0x22] @ ''full_name'' @ [CHR 0x22] @ '': '' @ [CHR 0x22] @ ''A''
 \<and> take 3 (drop 17 (profile_dumps (example_profile [CHR ''A'', CHR 0x85, CHR ''B''])))
     = ''B'' @ [CHR 0x22] @ '',''"
proof -
  let ?r = "example_profile [CHR ''A'', CHR 0x85, CHR ''B'']"
  have s: "splitlines (concat (map profile_line [?r]))
             = [take 16 (profile_dumps ?r), drop 17 (profile_dumps ?r)]"
    by code_simp
  have a: "take 16 (profile_dumps ?r)
     = ''{'' @ [CHR 0x22] @ ''full_name'' @ [CHR 0x22] @ '': '' @ [CHR 0x22] @ ''A''"
    by code_simp
  have b: "take 3 (drop 17 (profile_dumps ?r)) = ''B'' @ [CHR 0x22] @ '',''"
    by code_simp
  have "load_incremental_profiles loads
     (save_profiles_incrementally [?r] \<lparr>incremental_file = None, events = []\<rparr>)
   = List.map_filter loads (splitlines (concat (map profile_line [?r])))"
    by (simp add: load_incremental_profiles_def save_profiles_incrementally_def)
  with s a b show ?thesis by simp
qed

subsection \<open>Records that load back\<close>

text \<open>
  Among the code points below 256, the only character that \<open>json.dumps\<close> leaves in a line
  and at which \<open>splitlines\<close> ends a line is U+0085. When no text field of the saved records holds it, and \<open>json.loads\<close>
  reads back what \<open>json.dumps\<close> wrote, the loader returns the records that were saved, in
  the order they were saved.
\<close>

lemma code_point_char_of: "n < 256 \<Longrightarrow> code_point (char_of n) = n"
  by (simp add: code_point_def)

lemma code_point_inj: "code_point c = code_point d \<Longrightarrow> c = d"
  by (simp add: code_point_def)

lemma line_end_newline: "line_end (CHR 0x0A)"
  by (simp add: line_end_def code_point_def)

lemma line_end_return: "line_end (CHR 0x0D)"
  by (simp add: line_end_def code_point_def)

lemma splitlines_from_line:
  "\<not> list_ex line_end l \<Longrightarrow>
   splitlines_from cur (l @ CHR 0x0A # rest) = (cur @ l) # splitlines_from [] rest"
proof (induction l arbitrary: cur)
  case Nil
  then show ?case by (simp add: line_end_newline)
next
  case (Cons c l)
  then have "\<not> line_end c" "\<not> list_ex line_end l" by simp_all
  moreover from this have "c \<noteq> CHR 0x0D" using line_end_return by auto
  ultimately show ?case using Cons.IH [of "cur @ [c]"] by simp
qed

lemma splitlines_lines:
  "\<forall>l\<in>set ls. \<not> list_ex line_end l \<Longrightarrow>
   splitlines_from [] (concat (map (\<lambda>l. l @ [CHR 0x0A]) ls)) = ls"
proof (induction ls)
  case Nil
  then show ?case by simp
next
  case (Cons l ls)
  then show ?case using splitlines_from_line [of l "[]"] by simp
qed

lemma hex_digit_not_line_end: "d < 16 \<Longrightarrow> \<not> line_end (hex_digit d)"
  by (auto simp: hex_digit_def line_end_def code_point_char_of)

lemma escape_line_end: "list_ex line_end (json_escape_char c) \<longleftrightarrow> c = CHR 0x85"
proof -
  have lt: "code_point c < 256"
    by (simp add: code_point_def)
  have e85: "code_point c = 133 \<longleftrightarrow> c = CHR 0x85"
    using code_point_inj [of c "CHR 0x85"] by (auto simp: code_point_def)
  have bs: "\<not> line_end (CHR 0x5C)" "\<not> line_end (CHR 0x22)" "\<not> line_end (CHR ''b'')"
    "\<not> line_end (CHR ''f'')" "\<not> line_end (CHR ''n'')" "\<not> line_end (CHR ''r'')"
    "\<not> line_end (CHR ''t'')" "\<not> line_end (CHR ''u'')" "\<not> line_end (CHR ''0'')"
    by (simp_all add: line_end_def code_point_def)
  have h: "code_point c < 32 \<Longrightarrow> \<not> line_end (hex_digit (code_point c div 16))
      \<and> \<not> line_end (hex_digit (code_point c mod 16))"
    by (simp add: hex_digit_not_line_end)
  show ?thesis
    using bs h e85
    by (auto simp: json_escape_char_def Let_def line_end_def [of c])
qed

lemma json_str_line_end: "list_ex line_end (json_str s) \<longleftrightarrow> CHR 0x85 \<in> set s"
proof -
  have q: "\<not> line_end (CHR 0x22)"
    by (simp add: line_end_def code_point_def)
  have "list_ex line_end (concat (map json_escape_char s)) \<longleftrightarrow> CHR 0x85 \<in> set s"
    by (induction s) (auto simp: escape_line_end)
  with q show ?thesis by (simp add: json_str_def)
qed

lemma digits_no_line_end: "\<not> list_ex line_end (digits_of_nat n)"
proof (induction n rule: digits_of_nat.induct)
  case (1 n)
  have d: "\<not> line_end (digit_char k)" if "k < 10" for k
    using that by (simp add: digit_char_def line_end_def code_point_char_of)
  show ?case
  proof (cases "n < 10")
    case True
    then show ?thesis by (subst digits_of_nat.simps) (simp add: d)
  next
    case False
    with 1 have "\<not> list_ex line_end (digits_of_nat (n div 10))" by simp
    with False show ?thesis by (subst digits_of_nat.simps) (simp add: d)
  qed
qed

lemma str_of_int_no_line_end: "\<not> list_ex line_end (str_of_int i)"
  by (simp add: str_of_int_def digits_no_line_end line_end_def code_point_def)

lemma json_opt_int_no_line_end: "\<not> list_ex line_end (json_opt_int v)"
  by (cases v) (simp_all add: json_opt_int_def str_of_int_no_line_end line_end_def code_point_def)

lemma json_bool_no_line_end: "\<not> list_ex line_end (json_bool b)"
  by (simp add: json_bool_def line_end_def code_point_def)

lemma key_no_line_end:
  "\<not> list_ex line_end (json_str ''full_name'')"
  "\<not> list_ex line_end (json_str ''current_company'')"
  "\<not> list_ex line_end (json_str ''current_title'')"
  "\<not> list_ex line_end (json_str ''linkedin_public_url'')"
  "\<not> list_ex line_end (json_str ''location'')"
  "\<not> list_ex line_end (json_str ''headline'')"
  "\<not> list_ex line_end (json_str ''bachelors_grad_year'')"
  "\<not> list_ex line_end (json_str ''years_experience'')"
  "\<not> list_ex line_end (json_str ''recruiter_url'')"
  "\<not> list_ex line_end (json_str ''needs_review'')"
  "\<not> list_ex line_end (json_str ''review'')"
  by (simp_all add: json_str_line_end)

lemma profile_dumps_line_end:
  "list_ex line_end (profile_dumps p) \<longleftrightarrow> (\<exists>s\<in>set (text_fields p). CHR 0x85 \<in> set s)"
proof -
  have p: "\<not> line_end (CHR ''{'')" "\<not> line_end (CHR ''}'')" "\<not> line_end (CHR '','')"
    "\<not> line_end (CHR '' '')" "\<not> line_end (CHR '':'')"
    by (simp_all add: line_end_def code_point_def)
  show ?thesis
    unfolding profile_dumps_def json_item_def text_fields_def
    using key_no_line_end p
    by (auto simp: json_str_line_end json_opt_int_no_line_end json_bool_no_line_end)
qed

lemma saved_file:
  "incremental_file (fold (\<lambda>p. save_profiles_incrementally [p]) ps w)
     = appended ps (incremental_file w)"
proof (induction ps arbitrary: w)
  case Nil
  then show ?case by (simp add: appended_def)
next
  case (Cons p ps)
  have "appended ps (appended [p] (incremental_file w)) = appended (p # ps) (incremental_file w)"
    by (auto simp: appended_def split: option.splits)
  with Cons show ?case
    by (simp add: save_profiles_incrementally_def appended_def [of "[p]"])
qed

lemma map_filter_round_trip:
  "\<forall>p\<in>set ps. loads (profile_dumps p) = Some p \<Longrightarrow>
   List.map_filter loads (map profile_dumps ps) = ps"
  by (induction ps) (simp_all add: List.map_filter_simps)

lemma records_without_line_ends_load_back:
  assumes "\<forall>p\<in>set ps. \<forall>s\<in>set (text_fields p). CHR 0x85 \<notin> set s"
    and "\<forall>p\<in>set ps. loads (profile_dumps p) = Some p"
  shows "load_incremental_profiles loads
           (fold (\<lambda>p. save_profiles_incrementally [p]) ps \<lparr>incremental_file = None, events = es\<rparr>)
         = ps"
proof (cases ps)
  case Nil
  then show ?thesis by (simp add: load_incremental_profiles_def)
next
  case (Cons q qs)
  from assms(1) have ne: "\<forall>l\<in>set (map profile_dumps ps). \<not> list_ex line_end l"
    by (simp add: profile_dumps_line_end)
  have "concat (map profile_line ps) = concat (map (\<lambda>l. l @ [CHR 0x0A]) (map profile_dumps ps))"
    by (simp add: comp_def) (simp add: profile_line_def [abs_def])
  with splitlines_lines [OF ne] have
    sl: "splitlines (concat (map profile_line ps)) = map profile_dumps ps"
    by (simp add: splitlines_def)
  from Cons have "ps \<noteq> []" by simp
  then have f: "incremental_file
      (fold (\<lambda>p. save_profiles_incrementally [p]) ps \<lparr>incremental_file = None, events = es\<rparr>)
        = Some (concat (map profile_line ps))"
    by (simp add: saved_file appended_def)
  show ?thesis
    unfolding load_incremental_profiles_def f
    by (simp only: option.case sl map_filter_round_trip [OF assms(2)])
qed

end
